theory Spec2Isabelle
  imports Main
begin

section \<open>Values of the host language\<close>

text \<open>
  A \<^verbatim>\<open>Date\<close> is read only through \<^verbatim>\<open>getTime()\<close>: milliseconds since the epoch,
  an integer for every valid date. \<^verbatim>\<open>Date.now()\<close> and \<^verbatim>\<open>new Date()\<close> are the clock
  reading that each function below takes as its argument \<open>now\<close>. Times of valid dates
  and their differences are integers that a Number holds exactly, so the arithmetic
  below is integer arithmetic, and \<^verbatim>\<open>Math.floor(a / b)\<close> for a positive \<open>b\<close> is \<open>a div b\<close>,
  which rounds down for negative \<open>a\<close> as well.
\<close>

type_synonym Date = int

text \<open>The remainder operator \<^verbatim>\<open>%\<close> truncates towards zero: the sign is the dividend's.\<close>

definition js_rem :: "int \<Rightarrow> int \<Rightarrow> int" where
  "js_rem a b = sgn a * (abs a mod abs b)"

text \<open>Conversion of an integral number to a string, as a template literal does it.\<close>

definition digit_char :: "nat \<Rightarrow> char" where
  "digit_char d = ''0123456789'' ! d"

function show_nat :: "nat \<Rightarrow> string" where
  "show_nat n = (if n < 10 then [digit_char n] else show_nat (n div 10) @ [digit_char (n mod 10)])"
  by pat_completeness auto
termination
  by (relation "measure id") auto

declare show_nat.simps [simp del]

definition show_int :: "int \<Rightarrow> string" where
  "show_int i = (if i < 0 then CHR ''-'' # show_nat (nat (- i)) else show_nat (nat i))"

section \<open>Props and local state of PasswordManagementSection\<close>

record Props =
  memberId :: string
  memberNumber :: string
  memberName :: string
  passwordSetAt :: "Date option"
  failedLoginAttempts :: int
  lockedUntil :: "Date option"
  passwordResetRequired :: bool

text \<open>The three \<^verbatim>\<open>useState\<close> cells, with their initial values.\<close>

record LocalState =
  showResetDialog :: bool
  isUnlocking :: bool
  timeRemaining :: "string option"

definition initialState :: LocalState where
  "initialState = \<lparr>showResetDialog = False, isUnlocking = False, timeRemaining = None\<rparr>"

section \<open>Derived status\<close>

text \<open>
  The two constants computed at the top of every render, and the inner component
  \<^verbatim>\<open>BatteryIcon\<close>, with the element it returns as its icon and class name.
\<close>

definition passwordAgeInDays :: "Props \<Rightarrow> Date \<Rightarrow> int" where
  "passwordAgeInDays p now =
     (case passwordSetAt p of
        Some setAt \<Rightarrow> (now - setAt) div (1000 * 60 * 60 * 24)
      | None \<Rightarrow> 0)"

definition passwordAgeStatus :: "Props \<Rightarrow> Date \<Rightarrow> string" where
  "passwordAgeStatus p now = (if passwordAgeInDays p now > 90 then ''warning'' else ''success'')"

datatype Icon = BatteryFull | BatteryMedium | BatteryLow | BatteryWarning

record IconElement =
  icon :: Icon
  iconClass :: string

definition BatteryIcon :: "Props \<Rightarrow> IconElement" where
  "BatteryIcon p =
     (if failedLoginAttempts p = 0 then \<lparr>icon = BatteryFull, iconClass = ''w-4 h-4 text-green-500''\<rparr>
      else if failedLoginAttempts p \<le> 2 then \<lparr>icon = BatteryMedium, iconClass = ''w-4 h-4 text-yellow-500''\<rparr>
      else if failedLoginAttempts p \<le> 4 then \<lparr>icon = BatteryLow, iconClass = ''w-4 h-4 text-orange-500''\<rparr>
      else \<lparr>icon = BatteryWarning, iconClass = ''w-4 h-4 text-red-500''\<rparr>)"

section \<open>Lock countdown\<close>

text \<open>
  \<^verbatim>\<open>updateTimer\<close>, the callback of the interval: \<open>until\<close> is the \<^verbatim>\<open>lockedUntil\<close> its
  closure holds, \<open>now\<close> the clock when it runs. It writes \<^verbatim>\<open>timeRemaining\<close> only.
\<close>

definition updateTimer :: "Date \<Rightarrow> Date \<Rightarrow> LocalState \<Rightarrow> LocalState" where
  "updateTimer until now st =
     (let diff = until - now in
      if diff \<le> 0 then st\<lparr>timeRemaining := None\<rparr>
      else
        let minutes = diff div (1000 * 60);
            seconds = js_rem diff (1000 * 60) div 1000
        in st\<lparr>timeRemaining := Some (show_int minutes @ ''m '' @ show_int seconds @ ''s'')\<rparr>)"

section \<open>Rendered output\<close>

text \<open>
  What one evaluation of the component's body returns, element by element. An optional
  element is \<open>None\<close> when its guard is false. The static elements (headings, the
  icons inside badges and buttons, the always-present Reset Password button) carry no
  data and are left out; the two child components appear as the props handed to them.
\<close>

record ButtonElement =
  disabled :: bool
  label :: string

record DialogProps =
  dialogOpen :: bool
  dialogMemberNumber :: string
  dialogMemberName :: string

record View =
  passwordBadgeClass :: string
  passwordBadgeText :: string
  lockBadge :: "string option"
  resetRequiredBadge :: bool
  batteryIcon :: IconElement
  failedAttemptsText :: string
  unlockButton :: "ButtonElement option"
  magicLinkButton :: "string \<times> string"
  resetDialog :: DialogProps

text \<open>
  \<^verbatim>\<open>formatDistanceToNow\<close> comes from the date-fns package; the component is
  parameterised by it (the date, then the clock).
\<close>

type_synonym Fmt = "Date \<Rightarrow> Date \<Rightarrow> string"

text \<open>The guard \<^verbatim>\<open>lockedUntil && new Date(lockedUntil) > new Date()\<close>.\<close>

definition lockActive :: "Props \<Rightarrow> Date \<Rightarrow> bool" where
  "lockActive p now = (case lockedUntil p of None \<Rightarrow> False | Some until \<Rightarrow> until > now)"

text \<open>Truthiness of a \<^verbatim>\<open>string | null\<close>: null and the empty string are falsy.\<close>

definition truthy :: "string option \<Rightarrow> bool" where
  "truthy s = (case s of None \<Rightarrow> False | Some t \<Rightarrow> t \<noteq> [])"

text \<open>
  One evaluation of the component's body at clock \<open>now\<close>; every \<^verbatim>\<open>new Date()\<close> and
  \<^verbatim>\<open>Date.now()\<close> of one render reads the same \<open>now\<close>.
\<close>

definition render :: "Fmt \<Rightarrow> Props \<Rightarrow> LocalState \<Rightarrow> Date \<Rightarrow> View" where
  "render formatDistanceToNow p st now =
     (let colour = (if passwordAgeStatus p now = ''warning'' then ''yellow'' else ''green'')
      in \<lparr>passwordBadgeClass = ''bg-'' @ colour @ ''-500/10 text-'' @ colour @ ''-500'',
          passwordBadgeText =
            (case passwordSetAt p of
               Some setAt \<Rightarrow> ''Set '' @ formatDistanceToNow setAt now @ '' ago''
             | None \<Rightarrow> ''No Password''),
          lockBadge =
            (if lockActive p now
             then Some (if truthy (timeRemaining st)
                        then ''Locked for '' @ the (timeRemaining st) else ''Locked'')
             else None),
          resetRequiredBadge = passwordResetRequired p,
          batteryIcon = BatteryIcon p,
          failedAttemptsText = ''Failed attempts: '' @ show_int (failedLoginAttempts p),
          unlockButton =
            (if lockActive p now
             then Some \<lparr>disabled = isUnlocking st,
                        label = (if isUnlocking st then ''Unlocking...'' else ''Unlock'')\<rparr>
             else None),
          magicLinkButton = (memberNumber p, memberName p),
          resetDialog = \<lparr>dialogOpen = showResetDialog st,
                         dialogMemberNumber = memberNumber p,
                         dialogMemberName = memberName p\<rparr>\<rparr>)"

section \<open>The unlock action\<close>

text \<open>
  The error object of a failed remote call, and what the awaited call can do: resolve
  with \<^verbatim>\<open>{ error }\<close> (null on success) or reject.
\<close>

datatype Error = Error (message: string)

datatype RpcOutcome = Resolved "Error option" | Rejected Error

text \<open>What the handler sends out, in order: console lines, the remote call, toasts.\<close>

datatype Effect =
    ConsoleLog string string string Date
  | ConsoleError string Error string Date
  | Rpc string "(string \<times> string) list"
  | ToastSuccess string string
  | ToastError string string

text \<open>
  A handler body threads the local state and the output so far, and ends normally
  (\<open>Inr\<close>) or by a thrown error (\<open>Inl\<close>).
\<close>

type_synonym HState = "LocalState \<times> Effect list"
type_synonym 'a Handler = "HState \<Rightarrow> (Error + 'a) \<times> HState"

definition emit :: "Effect \<Rightarrow> unit Handler" where
  "emit e = (\<lambda>(st, out). (Inr (), (st, out @ [e])))"

definition setIsUnlocking :: "bool \<Rightarrow> unit Handler" where
  "setIsUnlocking b = (\<lambda>(st, out). (Inr (), (st\<lparr>isUnlocking := b\<rparr>, out)))"

definition throw :: "Error \<Rightarrow> unit Handler" where
  "throw e = (\<lambda>s. (Inl e, s))"

definition seq :: "unit Handler \<Rightarrow> unit Handler \<Rightarrow> unit Handler" where
  "seq m k = (\<lambda>s. case m s of (Inl e, s') \<Rightarrow> (Inl e, s') | (Inr _, s') \<Rightarrow> k s')"

text \<open>
  \<^verbatim>\<open>try { body } catch (e) { handler } finally { fin }\<close>: the handler runs on a
  throw of the body, \<open>fin\<close> runs on every path, and what leaves the statement is a
  throw of \<open>fin\<close>, else of the handler, else nothing.
\<close>

definition try_catch_finally ::
  "unit Handler \<Rightarrow> (Error \<Rightarrow> unit Handler) \<Rightarrow> unit Handler \<Rightarrow> unit Handler" where
  "try_catch_finally body handler fin =
     (\<lambda>s. case body s of
        (Inr _, s1) \<Rightarrow> fin s1
      | (Inl e, s1) \<Rightarrow>
          (case handler e s1 of
             (Inr _, s2) \<Rightarrow> fin s2
           | (Inl e', s2) \<Rightarrow> (case fin s2 of (Inr _, s3) \<Rightarrow> (Inl e', s3) | (Inl e'', s3) \<Rightarrow> (Inl e'', s3))))"

text \<open>
  The \<^verbatim>\<open>try\<close> block of \<^verbatim>\<open>handleUnlockAccount\<close> up to the \<^verbatim>\<open>await\<close>, and from it on.
  \<open>started\<close> and \<open>settled\<close> are the clock readings of the log lines.
\<close>

definition unlock_before_await :: "string \<Rightarrow> string \<Rightarrow> Date \<Rightarrow> unit Handler" where
  "unlock_before_await number name started =
     seq (emit (ConsoleLog ''Unlocking account for member:'' number name started))
    (seq (setIsUnlocking True)
         (emit (Rpc ''reset_failed_login'' [(''member_number'', number)])))"

definition unlock_after_await :: "string \<Rightarrow> string \<Rightarrow> RpcOutcome \<Rightarrow> Date \<Rightarrow> unit Handler" where
  "unlock_after_await number name outcome settled =
     (case outcome of
        Rejected e \<Rightarrow> throw e
      | Resolved (Some error) \<Rightarrow>
          seq (emit (ConsoleError ''Error unlocking account:'' error number settled)) (throw error)
      | Resolved None \<Rightarrow>
          emit (ToastSuccess ''Account has been unlocked''
                  (''Successfully unlocked account for '' @ name)))"

definition unlock_catch :: "string \<Rightarrow> Date \<Rightarrow> Error \<Rightarrow> unit Handler" where
  "unlock_catch number settled error =
     seq (emit (ConsoleError ''Failed to unlock account:'' error number settled))
         (emit (ToastError ''Failed to unlock account'' (message error)))"

definition unlock_finally :: "unit Handler" where
  "unlock_finally = setIsUnlocking False"

text \<open>The whole handler, for a call that settles with \<open>outcome\<close>.\<close>

definition handleUnlockAccount ::
  "string \<Rightarrow> string \<Rightarrow> RpcOutcome \<Rightarrow> Date \<Rightarrow> Date \<Rightarrow> unit Handler" where
  "handleUnlockAccount number name outcome started settled =
     try_catch_finally
       (seq (unlock_before_await number name started)
            (unlock_after_await number name outcome settled))
       (unlock_catch number settled)
       unlock_finally"

text \<open>
  The same handler cut at the \<^verbatim>\<open>await\<close>: \<open>handleUnlockAccount_begin\<close> is the state
  the component is in while the call is in flight, \<open>handleUnlockAccount_resume\<close>
  continues from there when the call settles.
\<close>

definition handleUnlockAccount_begin :: "string \<Rightarrow> string \<Rightarrow> Date \<Rightarrow> HState \<Rightarrow> HState" where
  "handleUnlockAccount_begin number name started s = snd (unlock_before_await number name started s)"

definition handleUnlockAccount_resume ::
  "string \<Rightarrow> string \<Rightarrow> RpcOutcome \<Rightarrow> Date \<Rightarrow> unit Handler" where
  "handleUnlockAccount_resume number name outcome settled =
     try_catch_finally (unlock_after_await number name outcome settled)
       (unlock_catch number settled) unlock_finally"

section \<open>The mounted component\<close>

text \<open>
  A mounted instance: its props, the hook state, the interval of the countdown effect
  (\<open>Some until\<close> while one is set, with the \<^verbatim>\<open>lockedUntil\<close> its callback closed over),
  the unlock call in flight (with the member number and name its handler closed over),
  the output of the last render, the clock, and everything sent out so far.
\<close>

record Component =
  props :: Props
  state :: LocalState
  timer :: "Date option"
  pending :: "(string \<times> string) option"
  view :: View
  clock :: Date
  sent :: "Effect list"

text \<open>
  A state setter called with the value the cell already holds schedules nothing; any
  other write is followed by a render of the current props and state at the current
  clock. \<open>commit\<close> takes the hook state before the event and the component after it.
\<close>

definition commit :: "Fmt \<Rightarrow> LocalState \<Rightarrow> Component \<Rightarrow> Component" where
  "commit fmt prev c =
     (if state c = prev then c else c\<lparr>view := render fmt (props c) (state c) (clock c)\<rparr>)"

text \<open>
  The body of the countdown effect: nothing for a null \<^verbatim>\<open>lockedUntil\<close>, else
  \<^verbatim>\<open>setInterval\<close> and one immediate \<^verbatim>\<open>updateTimer()\<close>. Its cleanup is
  \<^verbatim>\<open>clearInterval\<close>.
\<close>

definition lockEffect :: "Component \<Rightarrow> Component" where
  "lockEffect c =
     (case lockedUntil (props c) of
        None \<Rightarrow> c
      | Some until \<Rightarrow> c\<lparr>timer := Some until, state := updateTimer until (clock c) (state c)\<rparr>)"

definition lockEffect_cleanup :: "Component \<Rightarrow> Component" where
  "lockEffect_cleanup c = c\<lparr>timer := None\<rparr>"

text \<open>
  Mounting: the first render, with the initial state, reads the clock as \<open>t0\<close>. The
  effect runs after the commit, \<open>de\<close> milliseconds later, and its \<^verbatim>\<open>updateTimer()\<close> reads
  the clock again. A write of the effect that changes the state is followed by a render
  at that later clock; one that leaves the state as it is, is followed by none.
\<close>

definition mount :: "Fmt \<Rightarrow> Props \<Rightarrow> Date \<Rightarrow> nat \<Rightarrow> Component" where
  "mount fmt p t0 de =
     commit fmt initialState
       (lockEffect \<lparr>props = p, state = initialState, timer = None, pending = None,
                    view = render fmt p initialState t0, clock = t0 + int de, sent = []\<rparr>)"

text \<open>
  The dependency \<^verbatim>\<open>[lockedUntil]\<close> is compared with \<^verbatim>\<open>Object.is\<close>: null is null, and
  a date is only itself, whatever its time. \<open>sameObject\<close> says whether the new props carry
  the very \<^verbatim>\<open>Date\<close> object of the previous ones.
\<close>

definition sameDependency :: "Date option \<Rightarrow> Date option \<Rightarrow> bool \<Rightarrow> bool" where
  "sameDependency old new sameObject =
     (case (old, new) of
        (None, None) \<Rightarrow> True
      | (Some _, Some _) \<Rightarrow> sameObject
      | _ \<Rightarrow> False)"

text \<open>
  New props from the parent after \<open>dt\<close> milliseconds: a render with them, and, when the
  dependency has changed, \<open>de\<close> milliseconds later the cleanup of the previous effect and
  the effect again, with a render after it if it changed the state.
\<close>

definition receiveProps :: "Fmt \<Rightarrow> Props \<Rightarrow> bool \<Rightarrow> nat \<Rightarrow> nat \<Rightarrow> Component \<Rightarrow> Component" where
  "receiveProps fmt p' sameObject dt de c =
     (let now = clock c + int dt;
          c1 = c\<lparr>props := p', clock := now, view := render fmt p' (state c) now\<rparr>
      in if sameDependency (lockedUntil (props c)) (lockedUntil p') sameObject then c1
         else commit fmt (state c1)
                (lockEffect (lockEffect_cleanup (c1\<lparr>clock := now + int de\<rparr>))))"

text \<open>
  What can happen to a mounted component without new props: the interval fires, the
  Reset Password button is clicked, the dialog calls \<^verbatim>\<open>onOpenChange\<close>, the Unlock
  button is clicked, the remote call settles.
\<close>

datatype Action =
    Tick
  | ClickResetPassword
  | DialogOpenChange bool
  | ClickUnlock
  | RpcSettled RpcOutcome

text \<open>An event is an action together with the milliseconds passed since the previous one.\<close>

type_synonym Event = "nat \<times> Action"

definition act :: "Action \<Rightarrow> Component \<Rightarrow> Component" where
  "act a c =
     (case a of
        Tick \<Rightarrow>
          (case timer c of
             None \<Rightarrow> c
           | Some until \<Rightarrow> c\<lparr>state := updateTimer until (clock c) (state c)\<rparr>)
      | ClickResetPassword \<Rightarrow> c\<lparr>state := (state c)\<lparr>showResetDialog := True\<rparr>\<rparr>
      | DialogOpenChange b \<Rightarrow> c\<lparr>state := (state c)\<lparr>showResetDialog := b\<rparr>\<rparr>
      | ClickUnlock \<Rightarrow>
          (case unlockButton (view c) of
             None \<Rightarrow> c
           | Some button \<Rightarrow>
               if disabled button then c
               else
                 let (st, out) = handleUnlockAccount_begin (memberNumber (props c))
                                   (memberName (props c)) (clock c) (state c, sent c)
                 in c\<lparr>state := st, sent := out,
                      pending := Some (memberNumber (props c), memberName (props c))\<rparr>)
      | RpcSettled outcome \<Rightarrow>
          (case pending c of
             None \<Rightarrow> c
           | Some (number, name) \<Rightarrow>
               let (st, out) = snd (handleUnlockAccount_resume number name outcome (clock c)
                                      (state c, sent c))
               in c\<lparr>state := st, sent := out, pending := None\<rparr>))"

definition step :: "Fmt \<Rightarrow> Event \<Rightarrow> Component \<Rightarrow> Component" where
  "step fmt e c = commit fmt (state c) (act (snd e) (c\<lparr>clock := clock c + int (fst e)\<rparr>))"

definition run :: "Fmt \<Rightarrow> Event list \<Rightarrow> Component \<Rightarrow> Component" where
  "run fmt es c = foldl (\<lambda>c' e. step fmt e c') c es"

text \<open>The interval firing \<open>k\<close> times, exactly one second apart.\<close>

definition ticks :: "nat \<Rightarrow> Event list" where
  "ticks k = replicate k (1000, Tick)"

section \<open>Notions used in the statements\<close>

text \<open>A view that shows neither the lock badge nor the Unlock button.\<close>

definition hidden :: "View \<Rightarrow> bool" where
  "hidden v = (lockBadge v = None \<and> unlockButton v = None)"

text \<open>
  The invariant of a component mounted with lock expiry \<open>until\<close>: its interval is set,
  and whenever the countdown string is null the expiry has passed and the last render
  shows no lock. \<open>lockGone\<close> is what holds from the first tick at or after the expiry on.
\<close>

definition lockInv :: "Date \<Rightarrow> Component \<Rightarrow> bool" where
  "lockInv until c =
     (lockedUntil (props c) = Some until \<and> timer c = Some until \<and>
      (timeRemaining (state c) = None \<longrightarrow> until \<le> clock c \<and> hidden (view c)))"

definition lockGone :: "Date \<Rightarrow> Component \<Rightarrow> bool" where
  "lockGone until c =
     (lockedUntil (props c) = Some until \<and> until \<le> clock c \<and> hidden (view c))"

text \<open>Remote calls and toasts among what was sent out.\<close>

definition isRpc :: "Effect \<Rightarrow> bool" where
  "isRpc e = (case e of Rpc _ _ \<Rightarrow> True | _ \<Rightarrow> False)"

definition isToast :: "Effect \<Rightarrow> bool" where
  "isToast e = (case e of ToastSuccess _ _ \<Rightarrow> True | ToastError _ _ \<Rightarrow> True | _ \<Rightarrow> False)"

text \<open>Everything the handler sends out after the \<^verbatim>\<open>await\<close>, by outcome.\<close>

definition settledOutput :: "string \<Rightarrow> string \<Rightarrow> RpcOutcome \<Rightarrow> Date \<Rightarrow> Effect list" where
  "settledOutput number name outcome settled =
     (case outcome of
        Resolved None \<Rightarrow>
          [ToastSuccess ''Account has been unlocked'' (''Successfully unlocked account for '' @ name)]
      | Resolved (Some error) \<Rightarrow>
          [ConsoleError ''Error unlocking account:'' error number settled,
           ConsoleError ''Failed to unlock account:'' error number settled,
           ToastError ''Failed to unlock account'' (message error)]
      | Rejected error \<Rightarrow>
          [ConsoleError ''Failed to unlock account:'' error number settled,
           ToastError ''Failed to unlock account'' (message error)])"

text \<open>The same component with another \<^verbatim>\<open>memberId\<close> prop.\<close>

definition withMemberId :: "string \<Rightarrow> Component \<Rightarrow> Component" where
  "withMemberId m c = c\<lparr>props := (props c)\<lparr>memberId := m\<rparr>\<rparr>"

text \<open>
  A member for the examples: no password set, locked until 65 seconds after the epoch;
  and a stand-in for date-fns that prints whole days.
\<close>

definition sampleProps :: Props where
  "sampleProps = \<lparr>memberId = ''7f3a'', memberNumber = ''TM10003'', memberName = ''Ann Lee'',
     passwordSetAt = None, failedLoginAttempts = 0, lockedUntil = Some 65000,
     passwordResetRequired = False\<rparr>"

definition sampleFmt :: Fmt where
  "sampleFmt setAt now = show_int ((now - setAt) div 86400000) @ '' days''"

section \<open>Number strings\<close>

lemma digit_char_zero: "d < 10 \<Longrightarrow> digit_char d = CHR ''0'' \<longleftrightarrow> d = 0"
proof -
  assume "d < 10"
  then have "d \<in> {0, 1, 2, 3, 4, 5, 6, 7, 8, 9}" by auto
  then show ?thesis by (auto simp add: digit_char_def)
qed

lemma digit_char_digit: "d < 10 \<Longrightarrow> digit_char d \<in> set ''0123456789''"
  unfolding digit_char_def by (rule nth_mem) simp

lemma show_nat_nonempty: "show_nat n \<noteq> []"
  by (subst show_nat.simps) simp

lemma show_nat_digits: "set (show_nat n) \<subseteq> set ''0123456789''"
proof (induction n rule: show_nat.induct)
  case (1 n)
  show ?case
  proof (cases "n < 10")
    case True
    then show ?thesis
      using digit_char_digit [of n] by (subst show_nat.simps) simp
  next
    case False
    then have "set (show_nat (n div 10)) \<subseteq> set ''0123456789''" by (rule "1.IH")
    moreover have "digit_char (n mod 10) \<in> set ''0123456789''"
      by (rule digit_char_digit) simp
    ultimately show ?thesis
      using False by (subst show_nat.simps) simp
  qed
qed

lemma show_nat_zero: "show_nat n = ''0'' \<longleftrightarrow> n = 0"
proof (cases "n < 10")
  case True
  then show ?thesis
    using digit_char_zero [of n] by (subst show_nat.simps) simp
next
  case False
  then have "show_nat n = show_nat (n div 10) @ [digit_char (n mod 10)]"
    by (subst show_nat.simps) simp
  then have "length (show_nat n) \<ge> 2"
    using show_nat_nonempty [of "n div 10"] by (cases "show_nat (n div 10)") simp_all
  with False show ?thesis by auto
qed

lemma show_int_nonneg: "0 \<le> i \<Longrightarrow> show_int i = show_nat (nat i)"
  by (simp add: show_int_def)

text \<open>The only countdown string that reads \<open>0m 0s\<close> is the one of zero minutes and seconds.\<close>

lemma countdown_zero:
  assumes "0 \<le> m" and "0 \<le> s"
  shows "show_int m @ ''m '' @ show_int s @ ''s'' = ''0m 0s'' \<longleftrightarrow> m = 0 \<and> s = 0"
proof
  assume eq: "show_int m @ ''m '' @ show_int s @ ''s'' = ''0m 0s''"
  let ?a = "show_nat (nat m)" and ?b = "show_nat (nat s)"
  from eq assms have eq': "?a @ ''m '' @ ?b @ ''s'' = ''0m 0s''"
    by (simp add: show_int_nonneg)
  obtain x a' where a: "?a = x # a'"
    using show_nat_nonempty [of "nat m"] by (cases ?a) auto
  have "CHR ''m'' \<notin> set ?a"
    using show_nat_digits [of "nat m"] by auto
  with a have "a' = []"
    using eq' by (cases a') auto
  with a eq' have "?a = ''0''" and b: "?b @ ''s'' = ''0s''" by auto
  from b have "?b = ''0''" by (metis append1_eq_conv append_Cons append_Nil)
  with \<open>?a = ''0''\<close> assms show "m = 0 \<and> s = 0"
    by (simp add: show_nat_zero)
next
  assume "m = 0 \<and> s = 0"
  then show "show_int m @ ''m '' @ show_int s @ ''s'' = ''0m 0s''"
    by (simp add: show_int_def show_nat.simps digit_char_def)
qed

section \<open>The countdown callback\<close>

lemma updateTimer_timeRemaining:
  "timeRemaining (updateTimer until now st) =
     (if until - now \<le> 0 then None
      else Some (show_int ((until - now) div 60000) @ ''m '' @
                 show_int ((until - now) mod 60000 div 1000) @ ''s''))"
  by (simp add: updateTimer_def Let_def js_rem_def)

lemma updateTimer_frame:
  "showResetDialog (updateTimer until now st) = showResetDialog st"
  "isUnlocking (updateTimer until now st) = isUnlocking st"
  by (simp_all add: updateTimer_def Let_def)

lemma updateTimer_zero:
  "timeRemaining (updateTimer until now st) = Some ''0m 0s'' \<longleftrightarrow> 0 < until - now \<and> until - now < 1000"
proof (cases "until - now \<le> 0")
  case True
  then show ?thesis by (simp add: updateTimer_timeRemaining)
next
  case False
  let ?d = "until - now"
  from False have pos: "0 < ?d" by simp
  have "0 \<le> ?d div 60000" and "0 \<le> ?d mod 60000 div 1000"
    using pos by simp_all
  then have "(show_int (?d div 60000) @ ''m '' @ show_int (?d mod 60000 div 1000) @ ''s'' = ''0m 0s'')
      \<longleftrightarrow> ?d div 60000 = 0 \<and> ?d mod 60000 div 1000 = 0"
    by (rule countdown_zero)
  also have "\<dots> \<longleftrightarrow> ?d < 1000"
    using pos by (auto simp add: div_eq_0_iff zdiv_eq_0_iff)
  finally show ?thesis
    using False by (simp add: updateTimer_timeRemaining)
qed

lemmas eval_defs =
  updateTimer_timeRemaining show_int_def show_nat.simps digit_char_def

section \<open>The render function\<close>

lemma render_hidden: "hidden (render fmt p st now) = (\<not> lockActive p now)"
  by (simp add: render_def hidden_def)

lemma render_lock:
  "lockBadge (render fmt p st now) =
     (if lockActive p now
      then Some (if truthy (timeRemaining st) then ''Locked for '' @ the (timeRemaining st)
                 else ''Locked'')
      else None)"
  by (simp add: render_def)

lemma render_unlockButton:
  "unlockButton (render fmt p st now) =
     (if lockActive p now
      then Some \<lparr>disabled = isUnlocking st,
                 label = (if isUnlocking st then ''Unlocking...'' else ''Unlock'')\<rparr>
      else None)"
  by (simp add: render_def)

lemma render_passwordBadge:
  "passwordBadgeClass (render fmt p st now) =
     (if passwordAgeStatus p now = ''warning'' then ''bg-yellow-500/10 text-yellow-500''
      else ''bg-green-500/10 text-green-500'')"
  "passwordBadgeText (render fmt p st now) =
     (case passwordSetAt p of Some setAt \<Rightarrow> ''Set '' @ fmt setAt now @ '' ago''
      | None \<Rightarrow> ''No Password'')"
  by (simp_all add: render_def)

lemma passwordAgeStatus_memberId:
  "passwordAgeStatus (p\<lparr>memberId := m\<rparr>) now = passwordAgeStatus p now"
  by (simp add: passwordAgeStatus_def passwordAgeInDays_def)

lemma render_memberId: "render fmt (p\<lparr>memberId := m\<rparr>) st now = render fmt p st now"
  by (simp add: render_def passwordAgeStatus_memberId lockActive_def BatteryIcon_def)

section \<open>The handler\<close>

lemmas handler_defs =
  emit_def setIsUnlocking_def throw_def seq_def try_catch_finally_def
  unlock_before_await_def unlock_after_await_def unlock_catch_def unlock_finally_def

lemma begin_eq:
  "handleUnlockAccount_begin number name started (st, out) =
     (st\<lparr>isUnlocking := True\<rparr>,
      out @ [ConsoleLog ''Unlocking account for member:'' number name started,
             Rpc ''reset_failed_login'' [(''member_number'', number)]])"
  by (simp add: handleUnlockAccount_begin_def handler_defs)

lemma resume_eq:
  "handleUnlockAccount_resume number name outcome settled (st, out) =
     (Inr (), (st\<lparr>isUnlocking := False\<rparr>, out @ settledOutput number name outcome settled))"
  by (simp add: handleUnlockAccount_resume_def handler_defs settledOutput_def
           split: RpcOutcome.split option.split)

text \<open>The handler cut at the \<^verbatim>\<open>await\<close> is the handler.\<close>

lemma handleUnlockAccount_cut:
  "handleUnlockAccount number name outcome started settled s =
     handleUnlockAccount_resume number name outcome settled
       (handleUnlockAccount_begin number name started s)"
  by (cases s)
     (simp add: handleUnlockAccount_def handleUnlockAccount_resume_def
           handleUnlockAccount_begin_def handler_defs split: RpcOutcome.split option.split)

section \<open>Steps of the mounted component\<close>

lemma act_frame:
  "props (act a c) = props c" "timer (act a c) = timer c" "clock (act a c) = clock c"
  "view (act a c) = view c"
  by (auto simp add: act_def begin_eq resume_eq split: Action.split option.split prod.split)

lemma act_timeRemaining:
  "timeRemaining (state (act a c)) =
     (case (a, timer c) of
        (Tick, Some until) \<Rightarrow> timeRemaining (updateTimer until (clock c) (state c))
      | _ \<Rightarrow> timeRemaining (state c))"
  by (auto simp add: act_def begin_eq resume_eq split: Action.split option.split prod.split)

lemma act_showResetDialog:
  "showResetDialog (state (act a c)) =
     (case a of ClickResetPassword \<Rightarrow> True | DialogOpenChange b \<Rightarrow> b
      | _ \<Rightarrow> showResetDialog (state c))"
  by (auto simp add: act_def begin_eq resume_eq updateTimer_frame
        split: Action.split option.split prod.split)

lemma commit_frame:
  "props (commit fmt prev c) = props c" "timer (commit fmt prev c) = timer c"
  "clock (commit fmt prev c) = clock c" "state (commit fmt prev c) = state c"
  "sent (commit fmt prev c) = sent c" "pending (commit fmt prev c) = pending c"
  by (simp_all add: commit_def)

lemma commit_view:
  "view (commit fmt prev c) =
     (if state c = prev then view c else render fmt (props c) (state c) (clock c))"
  by (simp add: commit_def)

lemma step_frame:
  "props (step fmt e c) = props c" "timer (step fmt e c) = timer c"
  "clock (step fmt e c) = clock c + int (fst e)"
  by (simp_all add: step_def commit_frame act_frame)

lemma step_timeRemaining:
  "timeRemaining (state (step fmt e c)) =
     (case (snd e, timer c) of
        (Tick, Some until) \<Rightarrow> timeRemaining (updateTimer until (clock c + int (fst e)) (state c))
      | _ \<Rightarrow> timeRemaining (state c))"
  by (simp add: step_def commit_frame act_timeRemaining split: Action.split option.split)

lemma step_tick_state:
  "state (step fmt (dt, Tick) c) =
     (case timer c of None \<Rightarrow> state c
      | Some until \<Rightarrow> updateTimer until (clock c + int dt) (state c))"
  by (simp add: step_def commit_frame act_def split: option.split)

lemma step_showResetDialog:
  "showResetDialog (state (step fmt e c)) =
     (case snd e of ClickResetPassword \<Rightarrow> True | DialogOpenChange b \<Rightarrow> b
      | _ \<Rightarrow> showResetDialog (state c))"
  by (simp add: step_def commit_frame act_showResetDialog split: Action.split)

lemma step_view:
  "view (step fmt e c) =
     (if state (step fmt e c) = state c then view c
      else render fmt (props c) (state (step fmt e c)) (clock c + int (fst e)))"
  by (simp add: step_def commit_frame commit_view act_frame)

lemma run_Nil: "run fmt [] c = c"
  by (simp add: run_def)

lemma run_Cons: "run fmt (e # es) c = run fmt es (step fmt e c)"
  by (simp add: run_def)

lemma run_append: "run fmt (es @ es') c = run fmt es' (run fmt es c)"
  by (simp add: run_def)

lemma run_snoc: "run fmt (es @ [e]) c = step fmt e (run fmt es c)"
  by (simp add: run_def)

lemma run_props: "props (run fmt es c) = props c"
  by (induction es arbitrary: c) (simp_all add: run_Nil run_Cons step_frame)

lemma mount_parts:
  "props (mount fmt p t0 de) = p" "clock (mount fmt p t0 de) = t0 + int de"
  "timer (mount fmt p t0 de) = lockedUntil p" "sent (mount fmt p t0 de) = []"
  "pending (mount fmt p t0 de) = None"
  by (simp_all add: mount_def commit_frame lockEffect_def split: option.split)

lemma mount_state:
  "state (mount fmt p t0 de) =
     (case lockedUntil p of None \<Rightarrow> initialState
      | Some until \<Rightarrow> updateTimer until (t0 + int de) initialState)"
  by (simp add: mount_def commit_frame lockEffect_def split: option.split)

text \<open>The view of a mount is the first render unless the effect changed the state.\<close>

lemma mount_view:
  "view (mount fmt p t0 de) =
     (if state (mount fmt p t0 de) = initialState then render fmt p initialState t0
      else render fmt p (state (mount fmt p t0 de)) (t0 + int de))"
  by (simp add: mount_def commit_def lockEffect_def split: option.split)

lemma mount_showResetDialog: "showResetDialog (state (mount fmt p t0 de)) = False"
  by (simp add: mount_state initialState_def updateTimer_frame split: option.split)

lemma receiveProps_state:
  "state (receiveProps fmt p' sameObject dt de c) =
     (if sameDependency (lockedUntil (props c)) (lockedUntil p') sameObject then state c
      else case lockedUntil p' of None \<Rightarrow> state c
           | Some until \<Rightarrow> updateTimer until (clock c + int dt + int de) (state c))"
  by (simp add: receiveProps_def Let_def commit_frame lockEffect_def lockEffect_cleanup_def
        split: option.split)

lemma receiveProps_timer:
  "timer (receiveProps fmt p' sameObject dt de c) =
     (if sameDependency (lockedUntil (props c)) (lockedUntil p') sameObject then timer c
      else lockedUntil p')"
  by (simp add: receiveProps_def Let_def commit_frame lockEffect_def lockEffect_cleanup_def
        split: option.split)

section \<open>Ticks one second apart\<close>

lemma run_ticks_parts:
  "clock (run fmt (ticks k) c) = clock c + 1000 * int k"
  "timer (run fmt (ticks k) c) = timer c"
  "props (run fmt (ticks k) c) = props c"
  by (induction k arbitrary: c) (simp_all add: ticks_def run_Nil run_Cons step_frame)

lemma run_ticks_timeRemaining:
  assumes "timer c = Some until"
  shows "timeRemaining (state (run fmt (ticks (Suc k)) c)) =
           timeRemaining (updateTimer until (clock c + 1000 * int (Suc k)) st)"
proof -
  let ?c = "run fmt (ticks k) c"
  have "ticks (Suc k) = ticks k @ [(1000, Tick)]"
    by (simp add: ticks_def replicate_append_same)
  then have "run fmt (ticks (Suc k)) c = step fmt (1000, Tick) ?c"
    by (simp add: run_snoc)
  moreover have "clock ?c + 1000 = clock c + 1000 * int (Suc k)"
    by (simp add: run_ticks_parts)
  ultimately have "timeRemaining (state (run fmt (ticks (Suc k)) c)) =
      timeRemaining (updateTimer until (clock c + 1000 * int (Suc k)) (state ?c))"
    using assms by (simp add: step_timeRemaining run_ticks_parts ac_simps)
  also have "\<dots> = timeRemaining (updateTimer until (clock c + 1000 * int (Suc k)) st)"
    by (simp only: updateTimer_timeRemaining)
  finally show ?thesis .
qed

text \<open>
  After \<open>k\<close> ticks the string is the one \<^verbatim>\<open>updateTimer\<close> computes \<open>k\<close> seconds after the
  effect of the mount ran.
\<close>

lemma mount_ticks_timeRemaining:
  assumes "lockedUntil p = Some until"
  shows "timeRemaining (state (run fmt (ticks k) (mount fmt p t0 de))) =
           timeRemaining (updateTimer until (t0 + int de + 1000 * int k) st)"
proof (cases k)
  case 0
  then show ?thesis
    using assms by (simp add: ticks_def run_Nil mount_state updateTimer_timeRemaining)
next
  case (Suc j)
  then show ?thesis
    using assms run_ticks_timeRemaining [of "mount fmt p t0 de" until fmt j st]
    by (simp add: mount_parts)
qed

lemma tick_without_timer:
  assumes "timer c = None"
  shows "state (step fmt (dt, Tick) c) = state c"
  using assms by (simp add: step_def commit_frame act_def)

lemma ticks_without_timer:
  assumes "timer c = None"
  shows "state (run fmt (ticks k) c) = state c"
  using assms
proof (induction k arbitrary: c)
  case 0
  then show ?case by (simp add: ticks_def run_Nil)
next
  case (Suc k)
  have "timer (step fmt (1000, Tick) c) = None"
    using Suc.prems by (simp add: step_frame)
  then have "state (run fmt (ticks k) (step fmt (1000, Tick) c)) = state (step fmt (1000, Tick) c)"
    by (rule Suc.IH)
  then show ?case
    using Suc.prems by (simp add: ticks_def run_Cons tick_without_timer)
qed

section \<open>The lock invariant\<close>

text \<open>
  The invariant holds of a mount whose effect reads the clock before the expiry, or whose
  first render already reads it at or after the expiry.
\<close>

lemma lockInv_mount:
  assumes "lockedUntil p = Some until" and "until \<le> t0 \<or> t0 + int de < until"
  shows "lockInv until (mount fmt p t0 de)"
proof -
  have "until \<le> t0 + int de \<and> hidden (view (mount fmt p t0 de))"
    if none: "timeRemaining (state (mount fmt p t0 de)) = None"
  proof -
    from none assms(1) have late: "until \<le> t0 + int de"
      by (simp add: mount_state updateTimer_timeRemaining split: if_splits)
    with assms(2) have "until \<le> t0" by simp
    then have "hidden (render fmt p st now)" if "t0 \<le> now" for st now
      using assms(1) that by (simp add: render_hidden lockActive_def)
    then have "hidden (view (mount fmt p t0 de))"
      by (simp add: mount_view)
    with late show ?thesis by simp
  qed
  then show ?thesis
    using assms(1) by (simp add: lockInv_def mount_parts)
qed

lemma lockInv_step:
  assumes "lockInv until c"
  shows "lockInv until (step fmt e c)"
proof -
  from assms have L: "lockedUntil (props c) = Some until" and T: "timer c = Some until"
    and N: "timeRemaining (state c) = None \<Longrightarrow> until \<le> clock c \<and> hidden (view c)"
    by (simp_all add: lockInv_def)
  have "until \<le> clock (step fmt e c) \<and> hidden (view (step fmt e c))"
    if none: "timeRemaining (state (step fmt e c)) = None"
  proof (cases "timeRemaining (state c) = None")
    case True
    with N have "until \<le> clock c" and "hidden (view c)" by simp_all
    then show ?thesis
      using L by (simp add: step_frame step_view render_hidden lockActive_def)
  next
    case False
    with none have changed: "state (step fmt e c) \<noteq> state c" by auto
    from False none T have "until \<le> clock c + int (fst e)"
      by (auto simp add: step_timeRemaining updateTimer_timeRemaining
            split: Action.splits if_splits)
    with changed L show ?thesis
      by (simp add: step_frame step_view render_hidden lockActive_def)
  qed
  with L T show ?thesis
    by (simp add: lockInv_def step_frame)
qed

lemma lockInv_run: "lockInv until c \<Longrightarrow> lockInv until (run fmt es c)"
  by (induction es arbitrary: c) (simp_all add: run_Nil run_Cons lockInv_step)

lemma lockGone_step:
  assumes "lockGone until c"
  shows "lockGone until (step fmt e c)"
  using assms by (simp add: lockGone_def step_frame step_view render_hidden lockActive_def)

lemma lockGone_run: "lockGone until c \<Longrightarrow> lockGone until (run fmt es c)"
  by (induction es arbitrary: c) (simp_all add: run_Nil run_Cons lockGone_step)

text \<open>A tick at or after the expiry clears the string, and the render it causes hides the lock.\<close>

lemma lockGone_tick:
  assumes "lockInv until c" and "until \<le> clock (step fmt (dt, Tick) c)"
  shows "lockGone until (step fmt (dt, Tick) c)"
proof -
  have "lockInv until (step fmt (dt, Tick) c)"
    using assms(1) by (rule lockInv_step)
  moreover have "timeRemaining (state (step fmt (dt, Tick) c)) = None"
    using assms by (simp add: lockInv_def step_timeRemaining step_frame updateTimer_timeRemaining)
  ultimately show ?thesis
    using assms(2) by (simp add: lockInv_def lockGone_def)
qed

section \<open>The memberId prop\<close>

lemma withMemberId_parts:
  "view (withMemberId m c) = view c" "state (withMemberId m c) = state c"
  "sent (withMemberId m c) = sent c" "timer (withMemberId m c) = timer c"
  "pending (withMemberId m c) = pending c" "clock (withMemberId m c) = clock c"
  by (simp_all add: withMemberId_def)

lemma mount_memberId: "mount fmt (p\<lparr>memberId := m\<rparr>) t0 de = withMemberId m (mount fmt p t0 de)"
  by (simp add: mount_def withMemberId_def commit_def lockEffect_def render_memberId
        split: option.split)

lemma act_memberId: "act a (withMemberId m c) = withMemberId m (act a c)"
  by (simp add: act_def withMemberId_def split: Action.split option.split prod.split)

lemma step_memberId: "step fmt e (withMemberId m c) = withMemberId m (step fmt e c)"
proof -
  have "withMemberId m c\<lparr>clock := t\<rparr> = withMemberId m (c\<lparr>clock := t\<rparr>)" for t
    by (simp add: withMemberId_def)
  moreover have "commit fmt prev (withMemberId m d) = withMemberId m (commit fmt prev d)" for prev d
    by (simp add: commit_def withMemberId_def render_memberId)
  moreover have "state (withMemberId m c) = state c" "clock (withMemberId m c) = clock c"
    by (simp_all add: withMemberId_def)
  ultimately show ?thesis
    by (simp add: step_def act_memberId)
qed

lemma run_memberId: "run fmt es (withMemberId m c) = withMemberId m (run fmt es c)"
  by (induction es arbitrary: c) (simp_all add: run_Nil run_Cons step_memberId)

lemma receiveProps_memberId:
  "receiveProps fmt (p'\<lparr>memberId := m'\<rparr>) sameObject dt de (withMemberId m c) =
     withMemberId m' (receiveProps fmt p' sameObject dt de c)"
  by (simp add: receiveProps_def Let_def withMemberId_def commit_def lockEffect_def
        lockEffect_cleanup_def render_memberId split: option.split)

section \<open>Password age and its classification\<close>

text \<open>
  Claim C5. Given a non-null password-set timestamp, the age is the floor of the elapsed
  time over one day; the classification is \<open>warning\<close> when the age strictly exceeds 90
  days and \<open>success\<close> for 90 days or fewer, so it turns to \<open>warning\<close> exactly when 91 whole
  days have elapsed. The badge is styled yellow for \<open>warning\<close> and green for \<open>success\<close>.
\<close>

theorem password_age_classification:
  assumes "passwordSetAt p = Some setAt"
  shows "passwordAgeInDays p now = (now - setAt) div 86400000
       \<and> passwordAgeStatus p now = (if 90 < passwordAgeInDays p now then ''warning'' else ''success'')
       \<and> (passwordAgeStatus p now = ''warning'' \<longleftrightarrow> 91 * 86400000 \<le> now - setAt)
       \<and> (passwordAgeStatus p now = ''success'' \<longleftrightarrow> now - setAt < 91 * 86400000)
       \<and> passwordBadgeClass (render fmt p st now) =
           (if 90 < passwordAgeInDays p now then ''bg-yellow-500/10 text-yellow-500''
            else ''bg-green-500/10 text-green-500'')"
proof -
  have age: "passwordAgeInDays p now = (now - setAt) div 86400000"
    using assms by (simp add: passwordAgeInDays_def)
  have "90 < (now - setAt) div 86400000 \<longleftrightarrow> 91 * 86400000 \<le> now - setAt"
    by linarith
  then show ?thesis
    using age by (auto simp add: passwordAgeStatus_def render_passwordBadge)
qed

text \<open>
  A password set at 1000 ms: exactly 90 days later, and one millisecond before 91 days,
  it is fresh; at 91 days it is stale.
\<close>

theorem password_age_classification_witness:
  "passwordSetAt (sampleProps\<lparr>passwordSetAt := Some 1000\<rparr>) = Some 1000
   \<and> passwordAgeInDays (sampleProps\<lparr>passwordSetAt := Some 1000\<rparr>) (1000 + 90 * 86400000) = 90
   \<and> passwordAgeStatus (sampleProps\<lparr>passwordSetAt := Some 1000\<rparr>) (1000 + 90 * 86400000) = ''success''
   \<and> passwordAgeStatus (sampleProps\<lparr>passwordSetAt := Some 1000\<rparr>) (1000 + 91 * 86400000 - 1) = ''success''
   \<and> passwordAgeStatus (sampleProps\<lparr>passwordSetAt := Some 1000\<rparr>) (1000 + 91 * 86400000) = ''warning''"
proof -
  let ?p = "sampleProps\<lparr>passwordSetAt := Some 1000\<rparr>"
  have h: "passwordSetAt ?p = Some 1000" by simp
  from password_age_classification [OF h, of "1000 + 90 * 86400000"]
    password_age_classification [OF h, of "1000 + 91 * 86400000 - 1"]
    password_age_classification [OF h, of "1000 + 91 * 86400000"]
  show ?thesis by simp
qed

section \<open>The failed-attempts indicator\<close>

text \<open>
  Claim C6. For every non-negative count of failed login attempts the indicator is one
  of four distinct elements, by the partition 0, 1 to 2, 3 to 4, 5 and above: full and
  green, medium and yellow, low and orange, warning and red. It is the element rendered.
\<close>

theorem battery_icon_tiers:
  assumes "0 \<le> failedLoginAttempts p"
  shows "(BatteryIcon p = \<lparr>icon = BatteryFull, iconClass = ''w-4 h-4 text-green-500''\<rparr>
            \<longleftrightarrow> failedLoginAttempts p = 0)
       \<and> (BatteryIcon p = \<lparr>icon = BatteryMedium, iconClass = ''w-4 h-4 text-yellow-500''\<rparr>
            \<longleftrightarrow> 1 \<le> failedLoginAttempts p \<and> failedLoginAttempts p \<le> 2)
       \<and> (BatteryIcon p = \<lparr>icon = BatteryLow, iconClass = ''w-4 h-4 text-orange-500''\<rparr>
            \<longleftrightarrow> 3 \<le> failedLoginAttempts p \<and> failedLoginAttempts p \<le> 4)
       \<and> (BatteryIcon p = \<lparr>icon = BatteryWarning, iconClass = ''w-4 h-4 text-red-500''\<rparr>
            \<longleftrightarrow> 5 \<le> failedLoginAttempts p)
       \<and> batteryIcon (render fmt p st now) = BatteryIcon p"
  using assms by (auto simp add: BatteryIcon_def render_def)

text \<open>The counts 0 to 6, on both sides of every boundary.\<close>

theorem battery_icon_tiers_witness:
  "map (\<lambda>n. icon (BatteryIcon (sampleProps\<lparr>failedLoginAttempts := n\<rparr>))) [0, 1, 2, 3, 4, 5, 6] =
     [BatteryFull, BatteryMedium, BatteryMedium, BatteryLow, BatteryLow, BatteryWarning, BatteryWarning]"
proof -
  let ?p = "\<lambda>n. sampleProps\<lparr>failedLoginAttempts := n\<rparr>"
  have "BatteryIcon (?p 0) = \<lparr>icon = BatteryFull, iconClass = ''w-4 h-4 text-green-500''\<rparr>"
    using battery_icon_tiers [of "?p 0"] by simp
  moreover have "BatteryIcon (?p 1) = \<lparr>icon = BatteryMedium, iconClass = ''w-4 h-4 text-yellow-500''\<rparr>"
    using battery_icon_tiers [of "?p 1"] by simp
  moreover have "BatteryIcon (?p 2) = \<lparr>icon = BatteryMedium, iconClass = ''w-4 h-4 text-yellow-500''\<rparr>"
    using battery_icon_tiers [of "?p 2"] by simp
  moreover have "BatteryIcon (?p 3) = \<lparr>icon = BatteryLow, iconClass = ''w-4 h-4 text-orange-500''\<rparr>"
    using battery_icon_tiers [of "?p 3"] by simp
  moreover have "BatteryIcon (?p 4) = \<lparr>icon = BatteryLow, iconClass = ''w-4 h-4 text-orange-500''\<rparr>"
    using battery_icon_tiers [of "?p 4"] by simp
  moreover have "BatteryIcon (?p 5) = \<lparr>icon = BatteryWarning, iconClass = ''w-4 h-4 text-red-500''\<rparr>"
    using battery_icon_tiers [of "?p 5"] by simp
  moreover have "BatteryIcon (?p 6) = \<lparr>icon = BatteryWarning, iconClass = ''w-4 h-4 text-red-500''\<rparr>"
    using battery_icon_tiers [of "?p 6"] by simp
  ultimately show ?thesis by simp
qed

section \<open>The unlock action, outcome by outcome\<close>

text \<open>
  Claim C4. For every invocation of the unlock action: while the call is in flight
  \<^verbatim>\<open>isUnlocking\<close> is set, so the Unlock button, wherever it is rendered, is disabled and
  labelled \<open>Unlocking...\<close>; what has been sent out by then is the log line and one call of
  \<open>reset_failed_login\<close> whose single parameter is the member number; the toasts of the
  whole invocation are one success toast naming the member when the call returns no
  error, and one error toast carrying the error's message when it returns or throws one;
  and on every outcome \<^verbatim>\<open>isUnlocking\<close> is cleared afterwards, so the button is enabled
  and labelled \<open>Unlock\<close> again.
\<close>

theorem unlock_action_outcomes:
  "(let inflight = handleUnlockAccount_begin (memberNumber p) (memberName p) started (st, out);
        after = handleUnlockAccount (memberNumber p) (memberName p) outcome started settled (st, out)
    in isUnlocking (fst inflight)
       \<and> unlockButton (render fmt p (fst inflight) now) =
           (if lockActive p now then Some \<lparr>disabled = True, label = ''Unlocking...''\<rparr> else None)
       \<and> snd inflight =
           out @ [ConsoleLog ''Unlocking account for member:'' (memberNumber p) (memberName p) started,
                  Rpc ''reset_failed_login'' [(''member_number'', memberNumber p)]]
       \<and> after = handleUnlockAccount_resume (memberNumber p) (memberName p) outcome settled inflight
       \<and> filter isToast (drop (length out) (snd (snd after))) =
           (case outcome of
              Resolved None \<Rightarrow> [ToastSuccess ''Account has been unlocked''
                                  (''Successfully unlocked account for '' @ memberName p)]
            | Resolved (Some error) \<Rightarrow> [ToastError ''Failed to unlock account'' (message error)]
            | Rejected error \<Rightarrow> [ToastError ''Failed to unlock account'' (message error)])
       \<and> \<not> isUnlocking (fst (snd after))
       \<and> unlockButton (render fmt p (fst (snd after)) now) =
           (if lockActive p now then Some \<lparr>disabled = False, label = ''Unlock''\<rparr> else None))"
  unfolding Let_def handleUnlockAccount_cut
  by (simp add: begin_eq resume_eq render_unlockButton settledOutput_def isToast_def
        split: RpcOutcome.split option.split)

text \<open>The sample member, 10 ms after the epoch, with a call that comes back with an error.\<close>

theorem unlock_action_outcomes_witness:
  "unlockButton (render sampleFmt sampleProps
       (fst (handleUnlockAccount_begin ''TM10003'' ''Ann Lee'' 10 (initialState, []))) 20) =
     Some \<lparr>disabled = True, label = ''Unlocking...''\<rparr>
   \<and> snd (handleUnlockAccount_begin ''TM10003'' ''Ann Lee'' 10 (initialState, [])) =
       [ConsoleLog ''Unlocking account for member:'' ''TM10003'' ''Ann Lee'' 10,
        Rpc ''reset_failed_login'' [(''member_number'', ''TM10003'')]]
   \<and> filter isToast (snd (snd (handleUnlockAccount ''TM10003'' ''Ann Lee''
        (Resolved (Some (Error ''permission denied''))) 10 30 (initialState, [])))) =
       [ToastError ''Failed to unlock account'' ''permission denied'']
   \<and> unlockButton (render sampleFmt sampleProps
        (fst (snd (handleUnlockAccount ''TM10003'' ''Ann Lee''
           (Resolved (Some (Error ''permission denied''))) 10 30 (initialState, [])))) 40) =
       Some \<lparr>disabled = False, label = ''Unlock''\<rparr>"
proof -
  let ?failed = "Resolved (Some (Error ''permission denied''))"
  have p: "memberNumber sampleProps = ''TM10003''" "memberName sampleProps = ''Ann Lee''"
    "lockActive sampleProps 20" "lockActive sampleProps 40"
    by (simp_all add: sampleProps_def lockActive_def)
  note at20 = unlock_action_outcomes [where p = sampleProps and started = 10
      and st = initialState and out = "[]" and fmt = sampleFmt and now = 20 and settled = 30
      and outcome = ?failed, unfolded Let_def p]
  note at40 = unlock_action_outcomes [where p = sampleProps and started = 10
      and st = initialState and out = "[]" and fmt = sampleFmt and now = 40 and settled = 30
      and outcome = ?failed, unfolded Let_def p]
  have busy: "unlockButton (render sampleFmt sampleProps
       (fst (handleUnlockAccount_begin ''TM10003'' ''Ann Lee'' 10 (initialState, []))) 20) =
     Some \<lparr>disabled = True, label = ''Unlocking...''\<rparr>"
    using at20 by (simp add: p)
  have called: "snd (handleUnlockAccount_begin ''TM10003'' ''Ann Lee'' 10 (initialState, [])) =
       [ConsoleLog ''Unlocking account for member:'' ''TM10003'' ''Ann Lee'' 10,
        Rpc ''reset_failed_login'' [(''member_number'', ''TM10003'')]]"
    using at20 by (simp add: p)
  have toast: "filter isToast (snd (snd (handleUnlockAccount ''TM10003'' ''Ann Lee''
        ?failed 10 30 (initialState, [])))) =
       [ToastError ''Failed to unlock account'' ''permission denied'']"
    using at20 [THEN conjunct2, THEN conjunct2, THEN conjunct2, THEN conjunct2, THEN conjunct1]
    by simp
  have enabled: "unlockButton (render sampleFmt sampleProps
        (fst (snd (handleUnlockAccount ''TM10003'' ''Ann Lee'' ?failed 10 30 (initialState, [])))) 40) =
       Some \<lparr>disabled = False, label = ''Unlock''\<rparr>"
    using at40 [THEN conjunct2, THEN conjunct2, THEN conjunct2, THEN conjunct2, THEN conjunct2,
      THEN conjunct2]
    by (simp add: p)
  show ?thesis
    by (intro conjI busy called toast enabled)
qed

text \<open>
  Claim C7. In every execution of the unlock action the block before the \<^verbatim>\<open>await\<close>,
  the \<^verbatim>\<open>catch\<close> block and the \<^verbatim>\<open>finally\<close> block end normally; only the part after
  the \<^verbatim>\<open>await\<close> throws, and exactly when the remote call returned or threw an error.
  That error never leaves the handler: the handler ends normally, what was sent out
  before is untouched, the remote procedure is called exactly once, and the only toast
  is the error toast with the error's message.
\<close>

theorem unlock_failure_contained:
  "(let after = handleUnlockAccount number name outcome started settled (st, out);
        new = drop (length out) (snd (snd after))
    in fst after = Inr ()
       \<and> take (length out) (snd (snd after)) = out
       \<and> length (filter isRpc new) = 1
       \<and> fst (unlock_before_await number name started (st, out)) = Inr ()
       \<and> fst (unlock_after_await number name outcome settled (st, out)) =
           (case outcome of Resolved None \<Rightarrow> Inr () | Resolved (Some error) \<Rightarrow> Inl error
            | Rejected error \<Rightarrow> Inl error)
       \<and> fst (unlock_catch number settled error (st, out)) = Inr ()
       \<and> fst (unlock_finally (st, out)) = Inr ()
       \<and> filter isToast new =
           (case outcome of
              Resolved None \<Rightarrow> [ToastSuccess ''Account has been unlocked''
                                  (''Successfully unlocked account for '' @ name)]
            | Resolved (Some error) \<Rightarrow> [ToastError ''Failed to unlock account'' (message error)]
            | Rejected error \<Rightarrow> [ToastError ''Failed to unlock account'' (message error)]))"
  unfolding Let_def handleUnlockAccount_cut
  by (simp add: begin_eq resume_eq settledOutput_def isToast_def isRpc_def handler_defs
        split: RpcOutcome.split option.split)

text \<open>A call that throws: the handler still ends normally, after one call and one error toast.\<close>

theorem unlock_failure_contained_witness:
  "fst (handleUnlockAccount ''TM10003'' ''Ann Lee'' (Rejected (Error ''network down'')) 10 30
          (initialState, [])) = Inr ()
   \<and> fst (unlock_after_await ''TM10003'' ''Ann Lee'' (Rejected (Error ''network down'')) 30
          (initialState, [])) = Inl (Error ''network down'')
   \<and> length (filter isRpc (snd (snd (handleUnlockAccount ''TM10003'' ''Ann Lee''
        (Rejected (Error ''network down'')) 10 30 (initialState, []))))) = 1
   \<and> filter isToast (snd (snd (handleUnlockAccount ''TM10003'' ''Ann Lee''
        (Rejected (Error ''network down'')) 10 30 (initialState, [])))) =
       [ToastError ''Failed to unlock account'' ''network down'']"
  using unlock_failure_contained [where number = "''TM10003''" and name = "''Ann Lee''"
      and outcome = "Rejected (Error ''network down'')" and started = 10 and settled = 30
      and st = initialState and out = "[]"]
  unfolding Let_def by simp

section \<open>The badge of a member without a password\<close>

text \<open>
  Claim C1, as amended. For every rendering where the password-set timestamp is null the
  badge reads \<open>No Password\<close>; the age is taken as 0 days, so the classification is
  \<open>success\<close> and the badge is styled green, whatever the clock: \<open>warning\<close> never applies.
\<close>

theorem null_password_badge:
  assumes "passwordSetAt p = None"
  shows "passwordBadgeText (render fmt p st now) = ''No Password''
       \<and> passwordAgeInDays p now = 0
       \<and> passwordAgeStatus p now = ''success''
       \<and> passwordBadgeClass (render fmt p st now) = ''bg-green-500/10 text-green-500''"
  using assms
  by (simp add: render_passwordBadge passwordAgeStatus_def passwordAgeInDays_def)

theorem null_password_badge_witness:
  "passwordSetAt sampleProps = None
   \<and> passwordBadgeText (render sampleFmt sampleProps initialState 1700000000000) = ''No Password''
   \<and> passwordAgeInDays sampleProps 1700000000000 = 0"
proof -
  have h: "passwordSetAt sampleProps = None"
    by (simp add: sampleProps_def)
  from null_password_badge [OF h] h show ?thesis by simp
qed

text \<open>
  The claim as first stated has no classification applied for a null timestamp. The
  sample member has none, and is classified \<open>success\<close> and shown in the green of a fresh
  password.
\<close>

theorem null_password_classified_counterexample:
  "passwordSetAt sampleProps = None
   \<and> passwordAgeStatus sampleProps 1700000000000 = ''success''
   \<and> passwordBadgeClass (render sampleFmt sampleProps initialState 1700000000000) =
       ''bg-green-500/10 text-green-500''"
  by (simp add: sampleProps_def render_passwordBadge passwordAgeStatus_def passwordAgeInDays_def)

section \<open>The countdown from 65 seconds\<close>

text \<open>
  Claim C2, as amended. For a lock expiry exactly 65 seconds after the effect of the
  mount runs, the countdown string is \<open>1m 5s\<close> at once, from its synchronous first update,
  however long after the first render that is. After \<open>k\<close>
  ticks one second apart it is what \<^verbatim>\<open>updateTimer\<close> computes at \<open>k\<close> seconds; it runs
  down to \<open>0m 1s\<close> at tick 64 and is null from tick 65, the expiry instant, on and never
  before; it is never \<open>0m 0s\<close>. In general an update with \<open>diff > 0\<close> milliseconds left
  writes floor(diff/60000), \<open>m\<close>, a space, floor((diff mod 60000)/1000), \<open>s\<close>, and one with
  \<open>diff \<le> 0\<close> clears the string; the string \<open>0m 0s\<close> is written exactly when
  \<open>0 < diff < 1000\<close>.
\<close>

theorem lock_countdown_65s:
  assumes "lockedUntil p = Some (t0 + int de + 65000)"
  shows "timeRemaining (state (mount fmt p t0 de)) = Some ''1m 5s''
       \<and> (\<forall>k. timeRemaining (state (run fmt (ticks k) (mount fmt p t0 de))) =
                timeRemaining (updateTimer (t0 + int de + 65000) (t0 + int de + 1000 * int k) initialState))
       \<and> (\<forall>k. timeRemaining (state (run fmt (ticks k) (mount fmt p t0 de))) \<noteq> Some ''0m 0s'')
       \<and> timeRemaining (state (run fmt (ticks 64) (mount fmt p t0 de))) = Some ''0m 1s''
       \<and> (\<forall>k. timeRemaining (state (run fmt (ticks k) (mount fmt p t0 de))) = None \<longleftrightarrow> 65 \<le> k)
       \<and> (\<forall>until now st. timeRemaining (updateTimer until now st) =
             (if until - now \<le> 0 then None
              else Some (show_int ((until - now) div 60000) @ ''m '' @
                         show_int ((until - now) mod 60000 div 1000) @ ''s'')))
       \<and> (\<forall>until now st. timeRemaining (updateTimer until now st) = Some ''0m 0s''
             \<longleftrightarrow> 0 < until - now \<and> until - now < 1000)"
proof -
  have at: "timeRemaining (state (run fmt (ticks k) (mount fmt p t0 de))) =
              timeRemaining (updateTimer (t0 + int de + 65000) (t0 + int de + 1000 * int k) initialState)" for k
    using assms by (rule mount_ticks_timeRemaining)
  have first: "timeRemaining (state (mount fmt p t0 de)) = Some ''1m 5s''"
    using at [of 0] by (simp add: ticks_def run_Nil eval_defs)
  have never: "timeRemaining (state (run fmt (ticks k) (mount fmt p t0 de))) \<noteq> Some ''0m 0s''" for k
    unfolding at updateTimer_zero by simp
  have last: "timeRemaining (state (run fmt (ticks 64) (mount fmt p t0 de))) = Some ''0m 1s''"
    unfolding at by (simp add: eval_defs)
  have cleared: "timeRemaining (state (run fmt (ticks k) (mount fmt p t0 de))) = None \<longleftrightarrow> 65 \<le> k" for k
    unfolding at by (simp add: updateTimer_timeRemaining)
  show ?thesis
    by (intro conjI allI)
       (fact at first never last cleared updateTimer_timeRemaining updateTimer_zero)+
qed

theorem lock_countdown_65s_witness:
  "lockedUntil sampleProps = Some (0 + int 0 + 65000)
   \<and> timeRemaining (state (mount sampleFmt sampleProps 0 0)) = Some ''1m 5s''
   \<and> timeRemaining (state (run sampleFmt (ticks 64) (mount sampleFmt sampleProps 0 0))) = Some ''0m 1s''
   \<and> timeRemaining (state (run sampleFmt (ticks 65) (mount sampleFmt sampleProps 0 0))) = None"
proof -
  have h: "lockedUntil sampleProps = Some (0 + int 0 + 65000)"
    by (simp add: sampleProps_def)
  have "65 \<le> (65::nat)" by simp
  with lock_countdown_65s [OF h, of sampleFmt] h show ?thesis by blast
qed

text \<open>
  The claim as first stated has the string reach \<open>0m 0s\<close> before it is cleared. Mounted
  65 seconds before the expiry, with the effect at once, and ticking every second, the sample member's string is
  \<open>0m 1s\<close> after tick 64 and already null after tick 65, the next update.
\<close>

theorem lock_countdown_65s_counterexample:
  "timeRemaining (state (mount sampleFmt sampleProps 0 0)) = Some ''1m 5s''
   \<and> timeRemaining (state (run sampleFmt (ticks 64) (mount sampleFmt sampleProps 0 0))) = Some ''0m 1s''
   \<and> timeRemaining (state (run sampleFmt (ticks 65) (mount sampleFmt sampleProps 0 0))) = None"
proof -
  have h: "lockedUntil sampleProps = Some 65000"
    by (simp add: sampleProps_def)
  have at: "timeRemaining (state (run sampleFmt (ticks k) (mount sampleFmt sampleProps 0 0))) =
              timeRemaining (updateTimer 65000 (0 + int 0 + 1000 * int k) initialState)" for k
    using h by (rule mount_ticks_timeRemaining)
  have "timeRemaining (state (mount sampleFmt sampleProps 0 0)) = Some ''1m 5s''"
    using at [of 0] by (simp add: ticks_def run_Nil eval_defs)
  then show ?thesis
    unfolding at by (simp add: eval_defs)
qed

section \<open>The lock after its expiry\<close>

text \<open>
  A render at or after the expiry shows neither the lock badge nor the Unlock button.
  When the effect of the mount reads the clock before the expiry, or the first render
  already reads it at or after the expiry, the first tick at or after the expiry brings
  such a render about, and nothing that happens later, short of new props, brings badge
  or button back.
\<close>

lemma lock_gone_after_tick:
  assumes "lockedUntil p = Some until" and "until \<le> t0 \<or> t0 + int de < until"
      and "until \<le> clock (run fmt (es @ [(dt, Tick)]) (mount fmt p t0 de))"
  shows "lockGone until (run fmt (es @ (dt, Tick) # es') (mount fmt p t0 de))"
proof -
  let ?c = "run fmt es (mount fmt p t0 de)"
  have "lockInv until ?c"
    using assms(1,2) by (simp add: lockInv_mount lockInv_run)
  moreover have "until \<le> clock (step fmt (dt, Tick) ?c)"
    using assms(3) by (simp add: run_snoc)
  ultimately have "lockGone until (step fmt (dt, Tick) ?c)"
    by (rule lockGone_tick)
  then have "lockGone until (run fmt es' (step fmt (dt, Tick) ?c))"
    by (rule lockGone_run)
  then show ?thesis
    by (simp add: run_append run_Cons)
qed

text \<open>
  Claim C3 fails on the code. The claim: once the clock has passed the lock expiry,
  after the next tick neither the lock badge nor the Unlock button is shown, with no
  change of props. The first render reads the clock before the effect does. When the
  lock expires between the two readings, the first render shows the badge, reading
  \<open>Locked\<close>, and the enabled Unlock button; the effect's \<^verbatim>\<open>updateTimer()\<close> and every tick
  after it write null over the null that \<^verbatim>\<open>timeRemaining\<close> already holds, which causes
  no render. So after any number of ticks, with the props it was mounted with and the
  clock past the expiry, the view still is the first render, badge and button in it.
\<close>

theorem lock_stays_when_expired_before_effect:
  assumes "lockedUntil p = Some until" and "t0 < until" and "until \<le> t0 + int de"
  shows "(let c = run fmt (ticks k) (mount fmt p t0 de)
          in props c = p \<and> until \<le> clock c \<and> timeRemaining (state c) = None
             \<and> view c = render fmt p initialState t0
             \<and> lockBadge (view c) = Some ''Locked''
             \<and> unlockButton (view c) = Some \<lparr>disabled = False, label = ''Unlock''\<rparr>)"
proof -
  have cleared: "updateTimer until now initialState = initialState" if "until \<le> now" for now
    using that by (simp add: updateTimer_def initialState_def)
  have inv: "state (run fmt (ticks k) (mount fmt p t0 de)) = initialState
      \<and> view (run fmt (ticks k) (mount fmt p t0 de)) = render fmt p initialState t0"
  proof (induction k)
    case 0
    have "state (mount fmt p t0 de) = initialState"
      using assms(1,3) by (simp add: mount_state cleared)
    then show ?case
      by (simp add: ticks_def run_Nil mount_view)
  next
    case (Suc k)
    let ?c = "run fmt (ticks k) (mount fmt p t0 de)"
    have "ticks (Suc k) = ticks k @ [(1000, Tick)]"
      by (simp add: ticks_def replicate_append_same)
    then have run: "run fmt (ticks (Suc k)) (mount fmt p t0 de) = step fmt (1000, Tick) ?c"
      by (simp add: run_snoc)
    have "timer ?c = Some until" and "until \<le> clock ?c + 1000"
      using assms(1,3) by (simp_all add: run_ticks_parts mount_parts)
    with Suc.IH have "state (step fmt (1000, Tick) ?c) = initialState"
      by (simp add: step_tick_state cleared)
    with Suc.IH show ?case
      unfolding run by (simp add: step_view)
  qed
  have "lockActive p t0"
    using assms(1,2) by (simp add: lockActive_def)
  then have "lockBadge (render fmt p initialState t0) = Some ''Locked''"
    and "unlockButton (render fmt p initialState t0) = Some \<lparr>disabled = False, label = ''Unlock''\<rparr>"
    by (simp_all add: render_lock render_unlockButton truthy_def initialState_def)
  with inv assms(3) show ?thesis
    by (simp add: Let_def run_ticks_parts mount_parts initialState_def)
qed

text \<open>
  The sample member, locked until 65000: first rendered at 64999, the effect one
  millisecond later. After one tick, and after an hour of ticks, the badge still reads
  \<open>Locked\<close> and the Unlock button is still there.
\<close>

theorem lock_stays_when_expired_before_effect_witness:
  "lockedUntil sampleProps = Some 65000 \<and> (64999::int) < 65000 \<and> (65000::int) \<le> 64999 + int 1
   \<and> 65000 \<le> clock (run sampleFmt (ticks 1) (mount sampleFmt sampleProps 64999 1))
   \<and> lockBadge (view (run sampleFmt (ticks 1) (mount sampleFmt sampleProps 64999 1))) =
       Some ''Locked''
   \<and> unlockButton (view (run sampleFmt (ticks 1) (mount sampleFmt sampleProps 64999 1))) =
       Some \<lparr>disabled = False, label = ''Unlock''\<rparr>
   \<and> 65000 \<le> clock (run sampleFmt (ticks 3600) (mount sampleFmt sampleProps 64999 1))
   \<and> lockBadge (view (run sampleFmt (ticks 3600) (mount sampleFmt sampleProps 64999 1))) =
       Some ''Locked''
   \<and> unlockButton (view (run sampleFmt (ticks 3600) (mount sampleFmt sampleProps 64999 1))) =
       Some \<lparr>disabled = False, label = ''Unlock''\<rparr>"
proof -
  have h: "lockedUntil sampleProps = Some 65000"
    by (simp add: sampleProps_def)
  have a: "(64999::int) < 65000" and b: "(65000::int) \<le> 64999 + int 1"
    by simp_all
  note stays = lock_stays_when_expired_before_effect [OF h a b, unfolded Let_def]
  from stays [where k = 1 and fmt = sampleFmt] stays [where k = 3600 and fmt = sampleFmt] h a b
  show ?thesis by blast
qed

section \<open>Visibility of the reset dialog\<close>

text \<open>
  Claim C8, as amended. The dialog is closed or open (\<^verbatim>\<open>showResetDialog\<close> is a
  boolean) and starts closed. A click on the Reset Password button opens it. The
  dialog's \<^verbatim>\<open>onOpenChange\<close> callback is the setter itself: called with false it closes
  the dialog, called with true it opens it. Nothing else moves it: not a tick, not the
  unlock action, not new props. The dialog is handed the state as its \<^verbatim>\<open>open\<close> prop.
\<close>

theorem dialog_visibility_transitions:
  "showResetDialog (state (mount fmt p t0 de)) = False
   \<and> showResetDialog (state (step fmt (dt, a) c)) =
       (case a of
          ClickResetPassword \<Rightarrow> True
        | DialogOpenChange b \<Rightarrow> b
        | Tick \<Rightarrow> showResetDialog (state c)
        | ClickUnlock \<Rightarrow> showResetDialog (state c)
        | RpcSettled outcome \<Rightarrow> showResetDialog (state c))
   \<and> showResetDialog (state (receiveProps fmt p' sameObject dt de' c)) = showResetDialog (state c)
   \<and> dialogOpen (resetDialog (render fmt p st now)) = showResetDialog st"
  by (simp add: mount_showResetDialog step_showResetDialog receiveProps_state updateTimer_frame
        render_def split: Action.split option.split)

text \<open>Opened by the button, closed by the dialog, and untouched by a tick in between.\<close>

theorem dialog_visibility_transitions_witness:
  "showResetDialog (state (run sampleFmt [(100, ClickResetPassword)]
       (mount sampleFmt sampleProps 0 0))) = True
   \<and> showResetDialog (state (run sampleFmt [(100, ClickResetPassword), (900, Tick)]
       (mount sampleFmt sampleProps 0 0))) = True
   \<and> showResetDialog (state (run sampleFmt
       [(100, ClickResetPassword), (900, Tick), (50, DialogOpenChange False)]
       (mount sampleFmt sampleProps 0 0))) = False"
proof -
  let ?c0 = "mount sampleFmt sampleProps 0 0"
  let ?c1 = "step sampleFmt (100, ClickResetPassword) ?c0"
  let ?c2 = "step sampleFmt (900, Tick) ?c1"
  have "showResetDialog (state ?c1) = True"
    using dialog_visibility_transitions [where fmt = sampleFmt and a = ClickResetPassword
        and dt = 100 and c = ?c0, THEN conjunct2, THEN conjunct1]
    by simp
  moreover from this have "showResetDialog (state ?c2) = True"
    using dialog_visibility_transitions [where fmt = sampleFmt and a = Tick
        and dt = 900 and c = ?c1, THEN conjunct2, THEN conjunct1]
    by simp
  moreover have "showResetDialog (state (step sampleFmt (50, DialogOpenChange False) ?c2)) = False"
    using dialog_visibility_transitions [where fmt = sampleFmt and a = "DialogOpenChange False"
        and dt = 50 and c = ?c2, THEN conjunct2, THEN conjunct1]
    by simp
  ultimately show ?thesis
    by (simp add: run_Cons run_Nil)
qed

text \<open>
  The claim as first stated lets only the Reset Password button open the dialog. The
  component hands the dialog its setter, and a call of it with true opens the closed
  dialog with no click on the button.
\<close>

theorem dialog_opened_by_callback_counterexample:
  "showResetDialog (state (mount sampleFmt sampleProps 0 0)) = False
   \<and> showResetDialog (state (step sampleFmt (0, DialogOpenChange True)
        (mount sampleFmt sampleProps 0 0))) = True"
  by (simp add: mount_showResetDialog step_showResetDialog)

section \<open>Independence of memberId\<close>

text \<open>
  Claim C9. Nothing observable depends on the \<^verbatim>\<open>memberId\<close> prop. With any other value
  for it, and all else equal, a render gives the same output; a mounted component taken
  through the same events has the same view, local state, output sent (log lines, remote
  calls with their arguments, toasts), interval, call in flight and clock; and the unlock
  handler is called with the same arguments and so does the same.
\<close>

theorem memberId_unused:
  "render fmt (p\<lparr>memberId := m\<rparr>) st now = render fmt p st now
   \<and> (let c = run fmt es (mount fmt p t0 de);
          c' = run fmt es (mount fmt (p\<lparr>memberId := m\<rparr>) t0 de)
      in view c' = view c \<and> state c' = state c \<and> sent c' = sent c \<and> timer c' = timer c
         \<and> pending c' = pending c \<and> clock c' = clock c)
   \<and> receiveProps fmt (p'\<lparr>memberId := m\<rparr>) sameObject dt de' (withMemberId m' c) =
        withMemberId m (receiveProps fmt p' sameObject dt de' c)
   \<and> handleUnlockAccount (memberNumber (p\<lparr>memberId := m\<rparr>)) (memberName (p\<lparr>memberId := m\<rparr>))
        outcome started settled s =
      handleUnlockAccount (memberNumber p) (memberName p) outcome started settled s"
proof -
  have "run fmt es (mount fmt (p\<lparr>memberId := m\<rparr>) t0 de) = withMemberId m (run fmt es (mount fmt p t0 de))"
    by (simp add: mount_memberId run_memberId)
  then show ?thesis
    by (simp add: render_memberId receiveProps_memberId Let_def withMemberId_parts)
qed

text \<open>Two members' components that differ in the identifier only send out the same.\<close>

theorem memberId_unused_witness:
  "sent (run sampleFmt [(10, ClickUnlock), (40, RpcSettled (Resolved None))]
          (mount sampleFmt (sampleProps\<lparr>memberId := ''0b1c''\<rparr>) 0 0)) =
   sent (run sampleFmt [(10, ClickUnlock), (40, RpcSettled (Resolved None))]
          (mount sampleFmt sampleProps 0 0))
   \<and> view (run sampleFmt [(10, ClickUnlock), (40, RpcSettled (Resolved None))]
          (mount sampleFmt (sampleProps\<lparr>memberId := ''0b1c''\<rparr>) 0 0)) =
     view (run sampleFmt [(10, ClickUnlock), (40, RpcSettled (Resolved None))]
          (mount sampleFmt sampleProps 0 0))"
  using memberId_unused [of sampleFmt "''0b1c''" sampleProps _ _
      "[(10, ClickUnlock), (40, RpcSettled (Resolved None))]" 0 0,
      THEN conjunct2, THEN conjunct1]
  unfolding Let_def by blast

section \<open>The countdown effect without a lock expiry\<close>

text \<open>
  Claim C10. With a null \<^verbatim>\<open>lockedUntil\<close> the countdown effect does nothing: it sets no
  interval and writes no state, and a component mounted so has no interval and its
  initial state. When the prop goes from a date to null, the old interval is released
  and the local state, the last countdown string in it, is kept as it was; no later tick
  changes it.
\<close>

theorem null_lock_effect_frame:
  assumes "lockedUntil p' = None" and "lockedUntil (props c) = Some until"
  shows "lockEffect (c\<lparr>props := p'\<rparr>) = c\<lparr>props := p'\<rparr>
       \<and> timer (mount fmt p' t0 de') = None
       \<and> state (mount fmt p' t0 de') = initialState
       \<and> state (receiveProps fmt p' sameObject dt de c) = state c
       \<and> timer (receiveProps fmt p' sameObject dt de c) = None
       \<and> (\<forall>k. state (run fmt (ticks k) (receiveProps fmt p' sameObject dt de c)) = state c)"
proof -
  have released: "timer (receiveProps fmt p' sameObject dt de c) = None"
    using assms by (simp add: receiveProps_timer sameDependency_def)
  have kept: "state (receiveProps fmt p' sameObject dt de c) = state c"
    using assms by (simp add: receiveProps_state sameDependency_def)
  have "state (run fmt (ticks k) (receiveProps fmt p' sameObject dt de c)) = state c" for k
    using ticks_without_timer [OF released] kept by simp
  with released kept assms show ?thesis
    by (simp add: lockEffect_def mount_parts mount_state)
qed

text \<open>
  The sample member three seconds after the mount, then with the lock expiry taken away:
  the string \<open>1m 2s\<close> stays in the state, the interval is gone.
\<close>

theorem null_lock_effect_frame_witness:
  "timeRemaining (state (run sampleFmt (ticks 3) (mount sampleFmt sampleProps 0 0))) = Some ''1m 2s''
   \<and> timer (run sampleFmt (ticks 3) (mount sampleFmt sampleProps 0 0)) = Some 65000
   \<and> timeRemaining (state (receiveProps sampleFmt (sampleProps\<lparr>lockedUntil := None\<rparr>) False 500 0
        (run sampleFmt (ticks 3) (mount sampleFmt sampleProps 0 0)))) = Some ''1m 2s''
   \<and> timer (receiveProps sampleFmt (sampleProps\<lparr>lockedUntil := None\<rparr>) False 500 0
        (run sampleFmt (ticks 3) (mount sampleFmt sampleProps 0 0))) = None"
proof -
  let ?c = "run sampleFmt (ticks 3) (mount sampleFmt sampleProps 0 0)"
  let ?q = "sampleProps\<lparr>lockedUntil := None\<rparr>"
  have q: "lockedUntil ?q = None"
    by simp
  have s: "lockedUntil sampleProps = Some 65000"
    by (simp add: sampleProps_def)
  then have c: "lockedUntil (props ?c) = Some 65000" and t: "timer ?c = Some 65000"
    by (simp_all add: run_ticks_parts mount_parts)
  have "timeRemaining (state ?c) = timeRemaining (updateTimer 65000 (0 + int 0 + 1000 * int 3) initialState)"
    using s by (rule mount_ticks_timeRemaining)
  then have shown: "timeRemaining (state ?c) = Some ''1m 2s''"
    by (simp add: eval_defs)
  from null_lock_effect_frame [OF q c, of sampleFmt _ _ False 500 0] shown t show ?thesis
    by simp
qed

end
